theory Spec2Isabelle
  imports Main "HOL-Library.Sublist" "HOL-Library.State_Monad"
begin

section \<open>The root handler of app.py\<close>

text \<open>
  The program is one Flask view, bound to the root path:
  \<^verbatim>\<open>
  @app.route('/')
  def hello_world():
      envVar= os.environ.get('IS_PRODUCTION', "didnt get any")
      res = 'Hello ECS! Finally it Works, Yaayy' + str(envVar)
      return res
  \<close>
  Its only input is the mapping \<open>os.environ\<close>, from variable names to string values.
\<close>

subsection \<open>The environment mapping\<close>

type_synonym environ = "string \<rightharpoonup> string"

datatype py_error = KeyError string

text \<open>
  Subscripting \<open>os.environ[key]\<close> raises \<open>KeyError\<close> for a name that is not set.
\<close>

definition environ_getitem :: "environ \<Rightarrow> string \<Rightarrow> py_error + string" where
  "environ_getitem env key =
     (case env key of None \<Rightarrow> Inl (KeyError key) | Some v \<Rightarrow> Inr v)"

text \<open>
  \<open>os.environ.get(key, default)\<close> is the mapping's \<open>get\<close>: it subscripts, and answers the
  \<open>KeyError\<close> of a missing name with the default it was given.
\<close>

definition environ_get :: "environ \<Rightarrow> string \<Rightarrow> string \<Rightarrow> string" where
  "environ_get env key dflt =
     (case environ_getitem env key of Inl (KeyError _) \<Rightarrow> dflt | Inr v \<Rightarrow> v)"

text \<open>
  \<open>str(x)\<close> of a value that is a string already is that string; both results of
  the lookup (a stored value, the literal default) are strings.
\<close>

definition str :: "string \<Rightarrow> string" where
  "str v = v"

subsection \<open>The view function\<close>

text \<open>
  A call of a Python function either raises or returns: the result is a sum, with the
  returned value on the right. The body of \<open>hello_world\<close> has one path, which returns.
\<close>

definition hello_world :: "environ \<Rightarrow> py_error + string" where
  "hello_world env =
     (let envVar = environ_get env ''IS_PRODUCTION'' ''didnt get any'';
          res = ''Hello ECS! Finally it Works, Yaayy'' @ str envVar
      in Inr res)"

subsection \<open>The response to a request for the root path\<close>

record response =
  status :: nat
  body :: string

text \<open>
  Modelled from the spec: the web framework's conversion of a view's plain-string return
  value into a response is not part of app.py. The spec gives it as "HTTP 200 response
  whose body is the concatenated string".
\<close>

definition make_response :: "string \<Rightarrow> response" where
  "make_response rv = \<lparr>status = 200, body = rv\<rparr>"

text \<open>
  The route \<open>'/'\<close> calls the view and converts what it returns; an exception of the view
  stays an exception.
\<close>

definition root_response :: "environ \<Rightarrow> py_error + response" where
  "root_response env =
     (case hello_world env of Inl e \<Rightarrow> Inl e | Inr rv \<Rightarrow> Inr (make_response rv))"

subsection \<open>The process state\<close>

text \<open>
  The state of the serving process is \<open>os.environ\<close> together with everything else (the
  extension of the record). Serving a request takes the state and returns the response
  with the state afterwards; the view assigns only to its locals \<open>envVar\<close> and \<open>res\<close>.
\<close>

record process =
  os_environ :: environ

definition serve :: "'a process_scheme \<Rightarrow> (py_error + response) \<times> 'a process_scheme" where
  "serve p = (root_response (os_environ p), p)"

text \<open>The state after \<open>n\<close> requests served one after the other.\<close>

fun serve_many :: "nat \<Rightarrow> 'a process_scheme \<Rightarrow> 'a process_scheme" where
  "serve_many 0 p = p"
| "serve_many (Suc n) p = serve_many n (snd (serve p))"

subsection \<open>The view as a sequence of operations on the process state\<close>

text \<open>
  The same three lines once more, now with their effects: each operation of the body is a
  computation in the state monad over the process state, where reading is \<open>get\<close> and any
  assignment to \<open>os.environ\<close>, to a module global or to the world outside would be an
  \<open>update\<close>. The locals \<open>envVar\<close> and \<open>res\<close> live in the frame of the call and are the bound
  variables of the block; the view takes no argument, so the call is \<open>hello_world_st ()\<close>.

  The method call \<open>os.environ.get(key, default)\<close> reads the mapping held by the process;
  unlike \<open>setdefault\<close> or a subscript assignment it stores nothing.
\<close>

definition environ_get_op :: "string \<Rightarrow> string \<Rightarrow> ('a process_scheme, string) state" where
  "environ_get_op key dflt = do {
     p \<leftarrow> State_Monad.get;
     State_Monad.return (environ_get (os_environ p) key dflt)
   }"

definition hello_world_st :: "unit \<Rightarrow> ('a process_scheme, py_error + string) state" where
  "hello_world_st _ = do {
     envVar \<leftarrow> environ_get_op ''IS_PRODUCTION'' ''didnt get any'';
     let res = ''Hello ECS! Finally it Works, Yaayy'' @ str envVar;
     State_Monad.return (Inr res)
   }"

section \<open>Properties\<close>

lemma environ_get_eq:
  "environ_get env key dflt = (case env key of None \<Rightarrow> dflt | Some v \<Rightarrow> v)"
  by (simp add: environ_get_def environ_getitem_def split: option.split)

lemma hello_world_eq:
  "hello_world env =
     Inr (''Hello ECS! Finally it Works, Yaayy'' @
          (case env ''IS_PRODUCTION'' of None \<Rightarrow> ''didnt get any'' | Some v \<Rightarrow> v))"
  by (simp add: hello_world_def environ_get_eq str_def)

lemma root_response_eq:
  "root_response env =
     Inr \<lparr>status = 200,
          body = ''Hello ECS! Finally it Works, Yaayy'' @
                 (case env ''IS_PRODUCTION'' of None \<Rightarrow> ''didnt get any'' | Some v \<Rightarrow> v)\<rparr>"
  by (simp add: root_response_def hello_world_eq make_response_def)

lemma serve_many_id: "serve_many n p = p"
  by (induction n arbitrary: p) (simp_all add: serve_def)

text \<open>
  \<open>serve\<close> is the call of the view on the process state, followed by the conversion of
  what it returned.
\<close>

lemma environ_get_op_run:
  "run_state (environ_get_op key dflt) p = (environ_get (os_environ p) key dflt, p)"
  by (simp add: environ_get_op_def)

lemma serve_runs_view:
  "serve p =
     (case run_state (hello_world_st ()) p of
        (r, p') \<Rightarrow> ((case r of Inl e \<Rightarrow> Inl e | Inr rv \<Rightarrow> Inr (make_response rv)), p'))"
  by (simp add: serve_def root_response_def hello_world_def hello_world_st_def
      environ_get_op_run)

subsection \<open>Response bodies\<close>

text \<open>
  C1: while \<open>IS_PRODUCTION\<close> is unset, a request to the root path is answered with status
  200 and the body \<open>Hello ECS! Finally it Works, Yaayydidnt get any\<close>: the greeting followed
  by the fallback literal, in its lower-case spelling.
\<close>

theorem unset_response:
  "env ''IS_PRODUCTION'' = None \<Longrightarrow>
   root_response env =
     Inr \<lparr>status = 200, body = ''Hello ECS! Finally it Works, Yaayydidnt get any''\<rparr>"
  by (simp add: root_response_eq)

theorem unset_response_witness:
  "[''PATH'' \<mapsto> ''/usr/bin''] ''IS_PRODUCTION'' = None \<and>
   root_response [''PATH'' \<mapsto> ''/usr/bin''] =
     Inr \<lparr>status = 200, body = ''Hello ECS! Finally it Works, Yaayydidnt get any''\<rparr>"
  using unset_response [of "[''PATH'' \<mapsto> ''/usr/bin'']"] by simp

text \<open>
  C2: when \<open>IS_PRODUCTION\<close> is set to a string \<open>v\<close>, the body of the response is the greeting
  literal followed by \<open>v\<close>; for \<open>v = true\<close> it is \<open>Hello ECS! Finally it Works, Yaayytrue\<close>.
\<close>

theorem set_response:
  "env ''IS_PRODUCTION'' = Some v \<Longrightarrow>
   (\<exists>r. root_response env = Inr r \<and> body r = ''Hello ECS! Finally it Works, Yaayy'' @ v) \<and>
   (v = ''true'' \<longrightarrow>
     (\<exists>r. root_response env = Inr r \<and> body r = ''Hello ECS! Finally it Works, Yaayytrue''))"
  by (simp add: root_response_eq)

theorem set_response_witness:
  "[''IS_PRODUCTION'' \<mapsto> ''true''] ''IS_PRODUCTION'' = Some ''true'' \<and>
   (\<exists>r. root_response [''IS_PRODUCTION'' \<mapsto> ''true''] = Inr r \<and>
        body r = ''Hello ECS! Finally it Works, Yaayytrue'')"
  using set_response [of "[''IS_PRODUCTION'' \<mapsto> ''true'']" "''true''"] by simp

text \<open>
  C3: when \<open>IS_PRODUCTION\<close> is set to the empty string, the lookup yields the empty string
  and not the fallback, the body is the greeting alone, and the response differs from the
  one given while the variable is unset.
\<close>

theorem empty_response:
  "env ''IS_PRODUCTION'' = Some [] \<Longrightarrow> env' ''IS_PRODUCTION'' = None \<Longrightarrow>
   environ_get env ''IS_PRODUCTION'' ''didnt get any'' = [] \<and>
   root_response env = Inr \<lparr>status = 200, body = ''Hello ECS! Finally it Works, Yaayy''\<rparr> \<and>
   root_response env \<noteq> root_response env'"
  by (simp add: root_response_eq environ_get_eq)

theorem empty_response_witness:
  "[''IS_PRODUCTION'' \<mapsto> []] ''IS_PRODUCTION'' = Some [] \<and>
   [''HOME'' \<mapsto> ''/root''] ''IS_PRODUCTION'' = None \<and>
   environ_get [''IS_PRODUCTION'' \<mapsto> []] ''IS_PRODUCTION'' ''didnt get any'' = [] \<and>
   root_response [''IS_PRODUCTION'' \<mapsto> []] =
     Inr \<lparr>status = 200, body = ''Hello ECS! Finally it Works, Yaayy''\<rparr> \<and>
   root_response [''IS_PRODUCTION'' \<mapsto> []] \<noteq> root_response [''HOME'' \<mapsto> ''/root'']"
proof -
  have set_empty: "[''IS_PRODUCTION'' \<mapsto> []] ''IS_PRODUCTION'' = Some []"
    by simp
  have unset: "[''HOME'' \<mapsto> ''/root''] ''IS_PRODUCTION'' = None"
    by simp
  from set_empty unset
    empty_response [of "[''IS_PRODUCTION'' \<mapsto> []]" "[''HOME'' \<mapsto> ''/root'']",
      OF set_empty unset]
  show ?thesis
    by blast
qed

text \<open>
  C9: in every environment the body returned by \<open>hello_world\<close> begins with the greeting
  \<open>Hello ECS! Finally it Works, Yaayy\<close>.
\<close>

theorem body_prefix:
  "\<exists>res. hello_world env = Inr res \<and> prefix ''Hello ECS! Finally it Works, Yaayy'' res"
  by (simp add: hello_world_eq)

subsection \<open>Status and totality\<close>

text \<open>
  C4: in every environment (the variable unset, empty or set to any string) the request
  to the root path is answered, and with status 200.
\<close>

theorem status_200:
  "\<exists>r. root_response env = Inr r \<and> status r = 200"
  by (simp add: root_response_eq)

text \<open>
  C5: \<open>hello_world\<close> raises in no environment. It returns a string, and the \<open>KeyError\<close>
  of a lookup of the unset variable is answered inside the lookup by the default.
\<close>

theorem hello_world_total:
  "(\<forall>e. hello_world env \<noteq> Inl e) \<and>
   hello_world env =
     Inr (''Hello ECS! Finally it Works, Yaayy'' @
          (case environ_getitem env ''IS_PRODUCTION'' of
             Inl e \<Rightarrow> ''didnt get any'' | Inr v \<Rightarrow> v))"
  by (simp add: hello_world_eq environ_getitem_def split: option.split)

subsection \<open>State\<close>

text \<open>
  C6: two invocations in identical environment state (\<open>IS_PRODUCTION\<close> unset in both, or
  set to the same value in both) give the same response, whatever the rest of the two
  process states is and however many requests were served before.
\<close>

theorem serve_deterministic:
  "os_environ p ''IS_PRODUCTION'' = os_environ q ''IS_PRODUCTION'' \<Longrightarrow>
   fst (serve (serve_many n p)) = fst (serve (serve_many m q))"
  by (simp add: serve_many_id serve_def root_response_eq)

theorem serve_deterministic_witness:
  "os_environ \<lparr>os_environ = [''IS_PRODUCTION'' \<mapsto> ''true''], \<dots> = True\<rparr> ''IS_PRODUCTION'' =
     os_environ \<lparr>os_environ = [''IS_PRODUCTION'' \<mapsto> ''true''], \<dots> = False\<rparr> ''IS_PRODUCTION'' \<and>
   fst (serve (serve_many (Suc (Suc 0))
          \<lparr>os_environ = [''IS_PRODUCTION'' \<mapsto> ''true''], \<dots> = True\<rparr>)) =
     fst (serve (serve_many 0
          \<lparr>os_environ = [''IS_PRODUCTION'' \<mapsto> ''true''], \<dots> = False\<rparr>))"
  using serve_deterministic
    [of "\<lparr>os_environ = [''IS_PRODUCTION'' \<mapsto> ''true''], \<dots> = True\<rparr>"
        "\<lparr>os_environ = [''IS_PRODUCTION'' \<mapsto> ''true''], \<dots> = False\<rparr>"
        "Suc (Suc 0)" 0]
  by simp

text \<open>
  C7: invoking \<open>hello_world\<close> has no side effect. Run as a sequence of operations on the
  process state, the body ends in the state it started in (\<open>os.environ\<close> and everything
  else the process state holds), and what it returns is the value computed from the
  environment read.
\<close>

theorem hello_world_no_effect:
  "snd (run_state (hello_world_st ()) p) = p \<and>
   fst (run_state (hello_world_st ()) p) = hello_world (os_environ p)"
  by (simp add: hello_world_st_def environ_get_op_run hello_world_def)

text \<open>
  C8: the variable is read at each invocation. After a first request, when the
  environment is replaced by \<open>env2\<close>, the next response is the one for \<open>env2\<close>; when
  \<open>IS_PRODUCTION\<close> is assigned \<open>v\<close>, the next body ends in \<open>v\<close>; when it is deleted, the next
  body ends in the fallback.
\<close>

theorem serve_reads_fresh:
  "fst (serve ((snd (serve p))\<lparr>os_environ := env2\<rparr>)) = root_response env2 \<and>
   fst (serve ((snd (serve p))\<lparr>os_environ := (os_environ (snd (serve p)))(''IS_PRODUCTION'' \<mapsto> v)\<rparr>)) =
     Inr \<lparr>status = 200, body = ''Hello ECS! Finally it Works, Yaayy'' @ v\<rparr> \<and>
   fst (serve ((snd (serve p))\<lparr>os_environ := (os_environ (snd (serve p)))(''IS_PRODUCTION'' := None)\<rparr>)) =
     Inr \<lparr>status = 200, body = ''Hello ECS! Finally it Works, Yaayydidnt get any''\<rparr>"
  by (simp add: serve_def root_response_eq)

text \<open>
  C10: the response depends on the \<open>IS_PRODUCTION\<close> entry alone. Two environments with the
  same entry for it (both unset, or both the same value), different in any other
  variable, give the same result of \<open>hello_world\<close> and the same response.
\<close>

theorem other_variables_irrelevant:
  "env1 ''IS_PRODUCTION'' = env2 ''IS_PRODUCTION'' \<Longrightarrow>
   hello_world env1 = hello_world env2 \<and> root_response env1 = root_response env2"
  by (simp add: hello_world_eq root_response_eq)

theorem other_variables_irrelevant_witness:
  "[''IS_PRODUCTION'' \<mapsto> ''true'', ''PATH'' \<mapsto> ''/usr/bin''] ''IS_PRODUCTION'' =
     [''HOME'' \<mapsto> ''/root'', ''IS_PRODUCTION'' \<mapsto> ''true''] ''IS_PRODUCTION'' \<and>
   hello_world [''IS_PRODUCTION'' \<mapsto> ''true'', ''PATH'' \<mapsto> ''/usr/bin''] =
     hello_world [''HOME'' \<mapsto> ''/root'', ''IS_PRODUCTION'' \<mapsto> ''true''] \<and>
   root_response [''IS_PRODUCTION'' \<mapsto> ''true'', ''PATH'' \<mapsto> ''/usr/bin''] =
     root_response [''HOME'' \<mapsto> ''/root'', ''IS_PRODUCTION'' \<mapsto> ''true'']"
  using other_variables_irrelevant
    [of "[''IS_PRODUCTION'' \<mapsto> ''true'', ''PATH'' \<mapsto> ''/usr/bin'']"
        "[''HOME'' \<mapsto> ''/root'', ''IS_PRODUCTION'' \<mapsto> ''true'']"]
  by simp

end
